theory Spec2Isabelle
  imports Main "HOL-Library.Word" "HOL-Library.Sublist"
begin

section \<open>JavaScript strings\<close>

text \<open>
  A JavaScript string is a sequence of 16-bit code units. The literal \<open>str ''abc''\<close>
  is the string whose code units are the character codes of the HOL literal.
\<close>

type_synonym jschar = "16 word"
type_synonym jsstring = "jschar list"
type_synonym bytes = "8 word list"

definition str :: "string \<Rightarrow> jsstring" where
  "str s = map of_char s"

definition nl :: jsstring where
  "nl = [0x0A]"

text \<open>
  \<open>String.prototype.trim\<close> removes the ECMAScript WhiteSpace and LineTerminator code
  points from both ends.
\<close>

definition isWhiteSpace :: "jschar \<Rightarrow> bool" where
  "isWhiteSpace c \<longleftrightarrow>
     c \<in> {0x09, 0x0A, 0x0B, 0x0C, 0x0D, 0x20, 0xA0, 0x1680, 0x2028, 0x2029,
          0x202F, 0x205F, 0x3000, 0xFEFF}
     \<or> (0x2000 \<le> c \<and> c \<le> 0x200A)"

definition trim :: "jsstring \<Rightarrow> jsstring" where
  "trim s = rev (dropWhile isWhiteSpace (rev (dropWhile isWhiteSpace s)))"

text \<open>\<open>s.includes(sub)\<close> and \<open>s.endsWith(suf)\<close>.\<close>

definition includes_str :: "jsstring \<Rightarrow> jsstring \<Rightarrow> bool" where
  "includes_str s sub = sublist sub s"

definition endsWith :: "jsstring \<Rightarrow> jsstring \<Rightarrow> bool" where
  "endsWith s suf = suffix suf s"

text \<open>\<open>Array.prototype.join\<close> on an array of strings.\<close>

fun join :: "jsstring \<Rightarrow> jsstring list \<Rightarrow> jsstring" where
  "join sep [] = []"
| "join sep [x] = x"
| "join sep (x # y # ys) = x @ sep @ join sep (y # ys)"

text \<open>
  \<open>a || b\<close> where \<open>a\<close> is a string or undefined: the empty string and undefined are
  both falsy.
\<close>

definition js_or :: "jsstring option \<Rightarrow> jsstring \<Rightarrow> jsstring" where
  "js_or a b = (case a of None \<Rightarrow> b | Some x \<Rightarrow> if x = [] then b else x)"

text \<open>\<open>Number.prototype.toString\<close> on an integer: its decimal digits.\<close>

fun digits :: "nat \<Rightarrow> jsstring" where
  "digits n = (if n < 10 then [of_nat (48 + n)]
               else digits (n div 10) @ [of_nat (48 + n mod 10)])"

declare digits.simps [simp del]

definition toString :: "int \<Rightarrow> jsstring" where
  "toString i = (if i < 0 then str ''-'' @ digits (nat (- i)) else digits (nat i))"

section \<open>Data model (types.ts)\<close>

text \<open>
  The interfaces \<open>Document\<close> and \<open>ChatMessage\<close> both have fields \<open>id\<close> and
  \<open>content\<close>; the record fields carry the prefixes \<open>d_\<close> and \<open>m_\<close>.
\<close>

datatype doc_status = Processing | Ready | Error

record Document =
  d_id :: jsstring
  d_name :: jsstring
  d_content :: jsstring
  d_status :: doc_status
  d_timestamp :: int

datatype chat_role = User | Assistant

record ChatMessage =
  m_id :: jsstring
  m_role :: chat_role
  m_content :: jsstring
  m_sources :: "jsstring list option"

section \<open>Errors, collaborators and the log of calls\<close>

text \<open>
  The error objects the handlers can catch: the two the repository constructs itself
  (\<open>new Error("File is empty.")\<close> and \<open>new Error("Supabase not initialized")\<close>), and
  an error raised by a library or backend, given by its \<open>message\<close> property when it
  has one.
\<close>

type_synonym foreign_error = "jsstring option"

datatype jserror =
    EmptyContent
  | NotInitialized
  | External foreign_error

fun message :: "jserror \<Rightarrow> jsstring option" where
  "message EmptyContent = Some (str ''File is empty.'')"
| "message NotInitialized = Some (str ''Supabase not initialized'')"
| "message (External m) = m"

record db_row =
  r_id :: jsstring
  r_name :: jsstring
  r_content :: jsstring
  r_uploaded_at :: int
  r_embedding :: "nat list"

record select_response =
  data :: "jsstring list option"
  error :: "foreign_error option"

text \<open>
  The supabase-js client: what the backend answers to
  \<open>from(table).insert([row])\<close> and to \<open>from(table).select(columns).limit(n)\<close>.
  \<open>Inl\<close> is a rejected promise.
\<close>

record db_client =
  db_insert :: "jsstring \<Rightarrow> db_row \<Rightarrow> foreign_error + foreign_error option"
  db_select :: "jsstring \<Rightarrow> jsstring \<Rightarrow> nat \<Rightarrow> foreign_error + select_response"

record pdf_page =
  getTextContent :: "foreign_error + jsstring list"

record pdf_document =
  numPages :: nat
  getPage :: "nat \<Rightarrow> foreign_error + pdf_page"

record js_file =
  f_name :: jsstring
  f_type :: jsstring
  arrayBuffer :: "foreign_error + bytes"

text \<open>
  Everything outside the repository: the clock (\<open>clock w k\<close> is the k-th reading of
  \<open>Date.now()\<close> in one handler run), the identifier
  \<open>Math.random().toString(36).substr(2, 9)\<close>, pdf.js, mammoth, \<open>TextDecoder\<close>, the
  language model's \<open>generateContent\<close> (model name and prompt to \<open>response.text\<close>) and
  the client held by the \<open>SupabaseService\<close> singleton.
\<close>

record world =
  clock :: "nat \<Rightarrow> int"
  random_id :: jsstring
  pdfjs_getDocument :: "bytes \<Rightarrow> foreign_error + pdf_document"
  mammoth_extractRawText :: "bytes \<Rightarrow> foreign_error + jsstring"
  textDecoder_decode :: "bytes \<Rightarrow> jsstring"
  generateContent :: "jsstring \<Rightarrow> jsstring \<Rightarrow> foreign_error + jsstring option"
  client :: "db_client option"

datatype call =
    File_arrayBuffer
  | Pdfjs_getDocument
  | Pdf_getPage nat
  | Page_getTextContent nat
  | Mammoth_extractRawText
  | TextDecoder_decode
  | Gemini_processFileContent jsstring jsstring
  | Gemini_generateAnswer jsstring jsstring
  | Ai_generateContent jsstring jsstring
  | Supabase_storeDocument jsstring jsstring jsstring
  | Supabase_searchKnowledgeBase jsstring
  | Db_insert jsstring db_row
  | Db_select jsstring jsstring nat
  | Console_error

text \<open>
  An asynchronous computation that settles: the calls it made, in order, and either the
  error it threw or its value.
\<close>

type_synonym 'a io = "call list \<times> (jserror + 'a)"

definition ret :: "'a \<Rightarrow> 'a io" where
  "ret x = ([], Inr x)"

definition throw :: "jserror \<Rightarrow> 'a io" where
  "throw e = ([], Inl e)"

text \<open>
  \<open>perform c r\<close> is an awaited call \<open>c\<close> that leaves the repository and settles with
  \<open>r\<close>: a rejection is thrown as the foreign error it carries.
\<close>

definition perform :: "call \<Rightarrow> foreign_error + 'a \<Rightarrow> 'a io" where
  "perform c r = ([c], case r of Inl m \<Rightarrow> Inl (External m) | Inr x \<Rightarrow> Inr x)"

definition bind_io :: "'a io \<Rightarrow> ('a \<Rightarrow> 'b io) \<Rightarrow> 'b io" where
  "bind_io m f =
     (case m of
        (cs, Inl e) \<Rightarrow> (cs, Inl e)
      | (cs, Inr x) \<Rightarrow> (case f x of (cs', r) \<Rightarrow> (cs @ cs', r)))"

section \<open>SupabaseService\<close>

definition storeDocument :: "world \<Rightarrow> jsstring \<Rightarrow> jsstring \<Rightarrow> jsstring \<Rightarrow> unit io" where
  "storeDocument w ident name content =
     bind_io (perform (Supabase_storeDocument ident name content) (Inr ())) (\<lambda>_.
       case client w of
         None \<Rightarrow> throw NotInitialized
       | Some c \<Rightarrow>
           let row = \<lparr>r_id = ident, r_name = name, r_content = content,
                      r_uploaded_at = clock w 1, r_embedding = replicate 1536 0\<rparr>
           in bind_io (perform (Db_insert (str ''documents'') row)
                         (db_insert c (str ''documents'') row)) (\<lambda>err.
                case err of
                  Some e \<Rightarrow> bind_io (perform Console_error (Inr ())) (\<lambda>_. throw (External e))
                | None \<Rightarrow> ret ()))"

definition searchKnowledgeBase :: "world \<Rightarrow> jsstring \<Rightarrow> jsstring io" where
  "searchKnowledgeBase w query =
     bind_io (perform (Supabase_searchKnowledgeBase query) (Inr ())) (\<lambda>_.
       case client w of
         None \<Rightarrow> throw NotInitialized
       | Some c \<Rightarrow>
           bind_io (perform (Db_select (str ''documents'') (str ''content'') 10)
                      (db_select c (str ''documents'') (str ''content'') 10)) (\<lambda>r.
             case error r of
               Some e \<Rightarrow> bind_io (perform Console_error (Inr ())) (\<lambda>_. throw (External e))
             | None \<Rightarrow> ret (js_or (map_option (join (nl @ nl)) (data r)) [])))"

section \<open>GeminiService\<close>

definition processFileContent :: "world \<Rightarrow> jsstring \<Rightarrow> jsstring \<Rightarrow> jsstring io" where
  "processFileContent w name content =
     bind_io (perform (Gemini_processFileContent name content) (Inr ())) (\<lambda>_.
       let model = str ''gemini-3-flash-preview'';
           contents =
             str ''Extract all meaningful text and key information from this document named \"''
             @ name
             @ str ''\". Keep it clean and concise for a vector knowledge base:''
             @ nl @ nl @ content
       in bind_io (perform (Ai_generateContent model contents) (generateContent w model contents))
            (\<lambda>text. ret (js_or text [])))"

definition generateAnswer ::
  "world \<Rightarrow> jsstring \<Rightarrow> jsstring \<Rightarrow> (jsstring \<times> jsstring list) io" where
  "generateAnswer w question context =
     bind_io (perform (Gemini_generateAnswer question context) (Inr ())) (\<lambda>_.
       let model = str ''gemini-3-pro-preview'';
           contents =
             str ''You are a helpful AI assistant. Use the following pieces of retrieved context to answer the user's question. If you don't know the answer based on the context, say that you don't know. ''
             @ nl @ nl @ str ''Context:'' @ nl @ context @ nl @ nl
             @ str ''Question: '' @ question
       in bind_io (perform (Ai_generateContent model contents) (generateContent w model contents))
            (\<lambda>text. ret (js_or text (str ''I'm sorry, I couldn't generate an answer.''), [])))"

section \<open>App.tsx: text extraction\<close>

text \<open>
  The loop of \<open>extractTextFromPdf\<close>: \<open>i\<close> is the page about to be fetched and
  \<open>fullText\<close> the text assembled so far.
\<close>

function extractPages :: "pdf_document \<Rightarrow> nat \<Rightarrow> jsstring \<Rightarrow> jsstring io" where
  "extractPages pdf i fullText =
     (if i \<le> numPages pdf then
        bind_io (perform (Pdf_getPage i) (getPage pdf i)) (\<lambda>page.
        bind_io (perform (Page_getTextContent i) (getTextContent page)) (\<lambda>items.
          let pageText = join (str '' '') items
          in extractPages pdf (i + 1) (fullText @ pageText @ nl)))
      else ret fullText)"
  by pat_completeness auto
termination
  by (relation "measure (\<lambda>(pdf, i, fullText). Suc (numPages pdf) - i)") auto

declare extractPages.simps [simp del]

definition extractTextFromPdf :: "world \<Rightarrow> bytes \<Rightarrow> jsstring io" where
  "extractTextFromPdf w buf =
     bind_io (perform Pdfjs_getDocument (pdfjs_getDocument w buf)) (\<lambda>pdf.
       extractPages pdf 1 [])"

definition extractTextFromDocx :: "world \<Rightarrow> bytes \<Rightarrow> jsstring io" where
  "extractTextFromDocx w buf =
     perform Mammoth_extractRawText (mammoth_extractRawText w buf)"

text \<open>The dispatch on the declared type and the file name (lines 100 to 107).\<close>

definition extractText :: "world \<Rightarrow> js_file \<Rightarrow> bytes \<Rightarrow> jsstring io" where
  "extractText w f buf =
     (if f_type f = str ''application/pdf'' \<or> endsWith (f_name f) (str ''.pdf'') then
        extractTextFromPdf w buf
      else if f_type f =
                str ''application/vnd.openxmlformats-officedocument.wordprocessingml.document''
              \<or> endsWith (f_name f) (str ''.docx'') then
        extractTextFromDocx w buf
      else perform TextDecoder_decode (Inr (textDecoder_decode w buf)))"

section \<open>App.tsx: component state and its setters\<close>

record app_state =
  documents :: "Document list"
  chatMessages :: "ChatMessage list"
  isUploading :: bool
  inputMessage :: jsstring
  isAnswering :: bool
  isConfigured :: bool
  errorStatus :: "jsstring option"

text \<open>
  What a handler does, in order: calls of the state setters (the three updaters passed to
  \<open>setDocuments\<close> are \<open>InsertDocument\<close>, \<open>PatchReady\<close> and \<open>PatchError\<close>; the updater
  passed to \<open>setChatMessages\<close> is \<open>AppendMessage\<close>), effects on the DOM event, and calls
  that leave the component.
\<close>

datatype event =
    PreventDefault
  | SetIsUploading bool
  | SetErrorStatus "jsstring option"
  | InsertDocument Document
  | PatchReady jsstring jsstring
  | PatchError jsstring
  | AppendMessage ChatMessage
  | SetInputMessage jsstring
  | SetIsAnswering bool
  | ClearFileInput
  | Call call

definition patchReady :: "jsstring \<Rightarrow> jsstring \<Rightarrow> Document list \<Rightarrow> Document list" where
  "patchReady ident processedContent prev =
     map (\<lambda>d. if d_id d = ident then d\<lparr>d_content := processedContent, d_status := Ready\<rparr>
               else d) prev"

definition patchError :: "jsstring \<Rightarrow> Document list \<Rightarrow> Document list" where
  "patchError ident prev =
     map (\<lambda>d. if d_id d = ident then d\<lparr>d_status := Error\<rparr> else d) prev"

fun apply_event :: "event \<Rightarrow> app_state \<Rightarrow> app_state" where
  "apply_event PreventDefault s = s"
| "apply_event (SetIsUploading b) s = s\<lparr>isUploading := b\<rparr>"
| "apply_event (SetErrorStatus m) s = s\<lparr>errorStatus := m\<rparr>"
| "apply_event (InsertDocument newDoc) s = s\<lparr>documents := newDoc # documents s\<rparr>"
| "apply_event (PatchReady ident c) s = s\<lparr>documents := patchReady ident c (documents s)\<rparr>"
| "apply_event (PatchError ident) s = s\<lparr>documents := patchError ident (documents s)\<rparr>"
| "apply_event (AppendMessage m) s = s\<lparr>chatMessages := chatMessages s @ [m]\<rparr>"
| "apply_event (SetInputMessage v) s = s\<lparr>inputMessage := v\<rparr>"
| "apply_event (SetIsAnswering b) s = s\<lparr>isAnswering := b\<rparr>"
| "apply_event ClearFileInput s = s"
| "apply_event (Call c) s = s"

text \<open>The state after a sequence of events, and every state on the way.\<close>

fun run :: "event list \<Rightarrow> app_state \<Rightarrow> app_state" where
  "run [] s = s"
| "run (e # es) s = run es (apply_event e s)"

fun states :: "event list \<Rightarrow> app_state \<Rightarrow> app_state list" where
  "states [] s = [s]"
| "states (e # es) s = s # states es (apply_event e s)"

section \<open>App.tsx: onFileUpload\<close>

text \<open>The body of the \<open>try\<close> block up to the store write (lines 97 to 112).\<close>

definition processUpload :: "world \<Rightarrow> js_file \<Rightarrow> jsstring \<Rightarrow> jsstring io" where
  "processUpload w f newId =
     bind_io (perform File_arrayBuffer (arrayBuffer f)) (\<lambda>buf.
     bind_io (extractText w f buf) (\<lambda>extractedText.
       if trim extractedText = [] then throw EmptyContent
       else
         bind_io (processFileContent w (f_name f) extractedText) (\<lambda>processedContent.
         bind_io (storeDocument w newId (f_name f) processedContent) (\<lambda>_.
           ret processedContent))))"

text \<open>The \<open>catch\<close> block (lines 117 to 127).\<close>

definition catchUpload :: "jsstring \<Rightarrow> jserror \<Rightarrow> event list" where
  "catchUpload newId err =
     (let msg = js_or (message err) (str ''Failed to upload.'')
      in [Call Console_error,
          (if includes_str msg (str ''PGRST205'') \<or> includes_str msg (str ''documents'') then
             SetErrorStatus
               (Some (str ''Table 'documents' missing in Supabase. Check Setup SQL.''))
           else SetErrorStatus (Some msg)),
          PatchError newId])"

definition onFileUpload :: "world \<Rightarrow> js_file option \<Rightarrow> app_state \<Rightarrow> event list" where
  "onFileUpload w files0 s =
     (case files0 of
        None \<Rightarrow> []
      | Some f \<Rightarrow>
          if \<not> isConfigured s then []
          else
            let newDoc = \<lparr>d_id = random_id w, d_name = f_name f, d_content = [],
                          d_status = Processing, d_timestamp = clock w 0\<rparr>
            in [SetIsUploading True, SetErrorStatus None, InsertDocument newDoc]
               @ (case processUpload w f (d_id newDoc) of
                    (calls, Inr processedContent) \<Rightarrow>
                      map Call calls @ [PatchReady (d_id newDoc) processedContent]
                  | (calls, Inl err) \<Rightarrow>
                      map Call calls @ catchUpload (d_id newDoc) err)
               @ [SetIsUploading False, ClearFileInput])"

section \<open>App.tsx: handleSendMessage\<close>

text \<open>The \<open>try\<close> block (lines 144 and 145) and the two ways the exchange ends.\<close>

definition askKnowledgeBase ::
  "world \<Rightarrow> jsstring \<Rightarrow> (jsstring \<times> jsstring list) io" where
  "askKnowledgeBase w question =
     bind_io (searchKnowledgeBase w question) (\<lambda>context.
       generateAnswer w question context)"

definition handleSendMessage :: "world \<Rightarrow> app_state \<Rightarrow> event list" where
  "handleSendMessage w s =
     PreventDefault #
     (if trim (inputMessage s) = [] \<or> isAnswering s then []
      else
        let userMsg = \<lparr>m_id = toString (clock w 0), m_role = User,
                       m_content = inputMessage s, m_sources = None\<rparr>
        in [AppendMessage userMsg, SetInputMessage [], SetIsAnswering True]
           @ (case askKnowledgeBase w (inputMessage s) of
                (calls, Inr (text, sources)) \<Rightarrow>
                  map Call calls
                  @ [AppendMessage \<lparr>m_id = toString (clock w 1 + 1), m_role = Assistant,
                                    m_content = text, m_sources = Some sources\<rparr>]
              | (calls, Inl err) \<Rightarrow>
                  map Call calls
                  @ [AppendMessage
                       \<lparr>m_id = toString (clock w 1), m_role = Assistant,
                        m_content = str ''Error: '' @ js_or (message err)
                          (str ''Could not retrieve knowledge. Ensure your Supabase table 'documents' is created.''),
                        m_sources = None\<rparr>])
           @ [SetIsAnswering False])"

section \<open>App.tsx: the controls in front of the handlers\<close>






section \<open>Concrete inputs\<close>

text \<open>
  \<open>TextDecoder\<close> on bytes below \<open>0x80\<close>: UTF-8 maps each such byte to the code unit of
  the same value.
\<close>

definition ascii_decode :: "bytes \<Rightarrow> jsstring" where
  "ascii_decode bs = map ucast bs"

text \<open>A three-page PDF whose pages hold the single fragments A, B and C.\<close>

definition items_ABC :: "nat \<Rightarrow> jsstring list" where
  "items_ABC i = (if i = 1 then [str ''A''] else if i = 2 then [str ''B''] else [str ''C''])"

definition pdf_ABC :: pdf_document where
  "pdf_ABC = \<lparr>numPages = 3, getPage = (\<lambda>i. Inr \<lparr>getTextContent = Inr (items_ABC i)\<rparr>)\<rparr>"

text \<open>A backend with two stored rows, and one whose \<open>documents\<close> table is missing.\<close>

definition db_ok :: db_client where
  "db_ok = \<lparr>db_insert = (\<lambda>table row. Inr None),
            db_select = (\<lambda>table columns n.
              Inr \<lparr>data = Some [str ''alpha'', str ''beta''], error = None\<rparr>)\<rparr>"

definition missing_table_message :: jsstring where
  "missing_table_message = str ''Could not find the table 'public.documents' in the schema cache''"

definition db_missing_table :: db_client where
  "db_missing_table =
     \<lparr>db_insert = (\<lambda>table row. Inr (Some (Some missing_table_message))),
      db_select = (\<lambda>table columns n.
        Inr \<lparr>data = None, error = Some (Some missing_table_message)\<rparr>)\<rparr>"

text \<open>
  \<open>w_online\<close>: the service holds a client and every collaborator answers.
  \<open>w_missing_table\<close>: the same, against the backend without the table.
  \<open>w_fetch_fails\<close>: the backend cannot be reached, the request fails at once, and the
  two clock readings of a handler run fall into the same millisecond.
\<close>

definition w_online :: world where
  "w_online =
     \<lparr>clock = (\<lambda>k. 1700000000000 + 250 * int k),
      random_id = str ''k3x9q2m1z'',
      pdfjs_getDocument = (\<lambda>buf. Inr pdf_ABC),
      mammoth_extractRawText = (\<lambda>buf. Inr (str ''raw text'')),
      textDecoder_decode = ascii_decode,
      generateContent = (\<lambda>model contents. Inr (Some (str ''clean text''))),
      client = Some db_ok\<rparr>"

definition w_missing_table :: world where
  "w_missing_table = w_online\<lparr>client := Some db_missing_table\<rparr>"

definition db_unreachable :: db_client where
  "db_unreachable =
     \<lparr>db_insert = (\<lambda>table row. Inr (Some (Some (str ''TypeError: Failed to fetch'')))),
      db_select = (\<lambda>table columns n.
        Inr \<lparr>data = None, error = Some (Some (str ''TypeError: Failed to fetch''))\<rparr>)\<rparr>"

definition w_fetch_fails :: world where
  "w_fetch_fails = w_online\<lparr>clock := (\<lambda>k. 1700000000000), client := Some db_unreachable\<rparr>"

definition f_notes :: js_file where
  "f_notes = \<lparr>f_name = str ''notes.txt'', f_type = str ''text/plain'',
              arrayBuffer = Inr [0x68, 0x69]\<rparr>"

definition f_tabs :: js_file where
  "f_tabs = \<lparr>f_name = str ''tabs.md'', f_type = [],
             arrayBuffer = Inr [0x09, 0x0A]\<rparr>"

definition f_unreadable :: js_file where
  "f_unreadable = \<lparr>f_name = str ''notes.txt'', f_type = str ''text/plain'',
                   arrayBuffer = Inl (Some [])\<rparr>"

definition doc_old :: Document where
  "doc_old = \<lparr>d_id = str ''a1b2c3d4e'', d_name = str ''old.txt'', d_content = str ''old text'',
              d_status = Ready, d_timestamp = 1690000000000\<rparr>"

definition s_configured :: app_state where
  "s_configured =
     \<lparr>documents = [doc_old], chatMessages = [], isUploading = False,
      inputMessage = str ''hello'', isAnswering = False, isConfigured = True,
      errorStatus = None\<rparr>"

text \<open>
  \<open>w_collide\<close>: the random source returns the identifier the registry already holds.
\<close>

definition w_collide :: world where
  "w_collide = w_online\<lparr>random_id := str ''a1b2c3d4e''\<rparr>"

text \<open>
  A scanned one-page PDF: the page is an image and carries no text fragment. The file
  starts with the bytes of \<open>%PDF\<close>.
\<close>

definition pdf_scanned :: pdf_document where
  "pdf_scanned = \<lparr>numPages = 1, getPage = (\<lambda>i. Inr \<lparr>getTextContent = Inr []\<rparr>)\<rparr>"

definition w_scan :: world where
  "w_scan = w_online\<lparr>pdfjs_getDocument := (\<lambda>buf. Inr pdf_scanned)\<rparr>"

definition f_scan :: js_file where
  "f_scan = \<lparr>f_name = str ''scan.pdf'', f_type = str ''application/pdf'',
             arrayBuffer = Inr [0x25, 0x50, 0x44, 0x46]\<rparr>"

text \<open>A pending document, and a registry holding it between two others.\<close>

definition doc_pending :: Document where
  "doc_pending = \<lparr>d_id = str ''k3x9q2m1z'', d_name = str ''notes.txt'', d_content = [],
                  d_status = Processing, d_timestamp = 1700000000000\<rparr>"

definition doc_other :: Document where
  "doc_other = \<lparr>d_id = str ''zz00zz00z'', d_name = str ''other.md'', d_content = [],
                d_status = Processing, d_timestamp = 1700000000500\<rparr>"

definition registry_three :: "Document list" where
  "registry_three = [doc_other, doc_pending, doc_old]"


section \<open>Auxiliary facts\<close>

lemma run_append: "run (xs @ ys) s = run ys (run xs s)"
  by (induction xs arbitrary: s) simp_all

lemma run_calls: "run (map Call cs) s = s"
  by (induction cs) simp_all

lemma states_calls: "states (map Call cs @ es) s = replicate (length cs) s @ states es s"
  by (induction cs) simp_all

lemma remdups_adj_replicate_Cons: "remdups_adj (replicate n x @ x # xs) = remdups_adj (x # xs)"
  by (induction n) (simp_all add: replicate_app_Cons_same)

lemma snd_bind_io:
  "snd (bind_io m f) = (case snd m of Inl e \<Rightarrow> Inl e | Inr x \<Rightarrow> snd (f x))"
  by (simp add: bind_io_def split: prod.splits sum.splits)

lemma dropWhile_all: "(\<forall>x \<in> set (dropWhile P xs). P x) \<longleftrightarrow> (\<forall>x \<in> set xs. P x)"
  by (induction xs) simp_all

lemma trim_empty_iff: "trim s = [] \<longleftrightarrow> (\<forall>c \<in> set s. isWhiteSpace c)"
  by (simp add: trim_def dropWhile_eq_Nil_conv dropWhile_all)

lemma str_eq_Nil: "str s = [] \<longleftrightarrow> s = []"
  by (simp add: str_def)

lemma hello_not_blank: "trim (str ''hello'') \<noteq> []"
  by (simp add: trim_def str_def isWhiteSpace_def)

lemma onFileUpload_unconfigured: "\<not> isConfigured s \<Longrightarrow> onFileUpload w files0 s = []"
  by (simp add: onFileUpload_def split: option.splits)

subsection \<open>Decimal rendering is injective\<close>

lemma digits_nonempty: "digits n \<noteq> []"
  by (subst digits.simps) simp

lemma digit_unit_inj:
  assumes "a < 10" and "b < 10"
    and "(of_nat (48 + a) :: jschar) = of_nat (48 + b)"
  shows "a = b"
proof -
  have "take_bit LENGTH(16) (48 + a) = 48 + a" "take_bit LENGTH(16) (48 + b) = 48 + b"
    using assms(1,2) by (simp_all add: take_bit_nat_eq_self)
  with assms(3) have "48 + a = 48 + b"
    by (simp only: word_of_nat_eq_iff)
  then show ?thesis by simp
qed

lemma digits_inj: "digits n = digits m \<Longrightarrow> n = m"
proof (induction n arbitrary: m rule: digits.induct)
  case (1 n)
  show ?case
  proof (cases "n < 10")
    case small_n: True
    show ?thesis
    proof (cases "m < 10")
      case True
      with small_n "1.prems" show ?thesis
        by (simp add: digits.simps [of n] digits.simps [of m] digit_unit_inj)
    next
      case False
      with small_n "1.prems" digits_nonempty [of "m div 10"] show ?thesis
        by (simp add: digits.simps [of n] digits.simps [of m])
    qed
  next
    case big_n: False
    show ?thesis
    proof (cases "m < 10")
      case True
      with big_n "1.prems" digits_nonempty [of "n div 10"] show ?thesis
        by (simp add: digits.simps [of n] digits.simps [of m])
    next
      case False
      with big_n "1.prems"
      have eq: "digits (n div 10) = digits (m div 10)"
        and last: "(of_nat (48 + n mod 10) :: jschar) = of_nat (48 + m mod 10)"
        by (simp_all add: digits.simps [of n] digits.simps [of m])
      from "1.IH" [OF big_n eq] have "n div 10 = m div 10" .
      moreover have "n mod 10 = m mod 10"
        using last by (intro digit_unit_inj) simp_all
      ultimately show ?thesis
        by (metis div_mult_mod_eq)
    qed
  qed
qed

lemma toString_inj_nonneg: "0 \<le> i \<Longrightarrow> 0 \<le> j \<Longrightarrow> toString i = toString j \<Longrightarrow> i = j"
  by (auto simp add: toString_def dest: digits_inj)

subsection \<open>The model on the concrete inputs\<close>

lemma notes_dispatch:
  "f_type f_notes \<noteq> str ''application/pdf''"
  "\<not> endsWith (f_name f_notes) (str ''.pdf'')"
  "f_type f_notes \<noteq> str ''application/vnd.openxmlformats-officedocument.wordprocessingml.document''"
  "\<not> endsWith (f_name f_notes) (str ''.docx'')"
  by code_simp+

lemma tabs_dispatch:
  "f_type f_tabs \<noteq> str ''application/pdf''"
  "\<not> endsWith (f_name f_tabs) (str ''.pdf'')"
  "f_type f_tabs \<noteq> str ''application/vnd.openxmlformats-officedocument.wordprocessingml.document''"
  "\<not> endsWith (f_name f_tabs) (str ''.docx'')"
  by code_simp+

lemma decode_examples:
  "trim (ascii_decode [0x68, 0x69]) \<noteq> []"
  "trim (ascii_decode [0x20]) = []"
  by code_simp+

lemma includes_examples:
  "includes_str missing_table_message (str ''documents'')"
  "\<not> includes_str (str ''Failed to upload.'') (str ''PGRST205'')"
  "\<not> includes_str (str ''Failed to upload.'') (str ''documents'')"
  by code_simp+

lemma ids_differ: "d_id doc_old \<noteq> random_id w_online"
  by code_simp

lemma processUpload_notes_online:
  "snd (processUpload w_online f_notes (random_id w_online)) = Inr (str ''clean text'')"
  using notes_dispatch decode_examples
  by (simp add: processUpload_def extractText_def processFileContent_def storeDocument_def
      snd_bind_io perform_def ret_def throw_def Let_def js_or_def str_eq_Nil
      w_online_def db_ok_def f_notes_def)

lemma processUpload_notes_missing_table:
  "snd (processUpload w_missing_table f_notes (random_id w_missing_table))
     = Inl (External (Some missing_table_message))"
  using notes_dispatch decode_examples
  by (simp add: processUpload_def extractText_def processFileContent_def storeDocument_def
      snd_bind_io perform_def ret_def throw_def Let_def js_or_def str_eq_Nil
      w_online_def w_missing_table_def db_missing_table_def f_notes_def)

lemma processUpload_unreadable:
  "snd (processUpload w_online f_unreadable (random_id w_online)) = Inl (External (Some []))"
  by (simp add: processUpload_def snd_bind_io perform_def f_unreadable_def)

subsection \<open>The page loop and the origin of errors\<close>

lemma extractPages_all:
  assumes "\<forall>j. i \<le> j \<and> j \<le> numPages pdf \<longrightarrow> getPage pdf j = Inr \<lparr>getTextContent = Inr (items j)\<rparr>"
  shows "extractPages pdf i acc =
           (concat (map (\<lambda>j. [Pdf_getPage j, Page_getTextContent j]) [i..<Suc (numPages pdf)]),
            Inr (acc @ concat (map (\<lambda>j. join (str '' '') (items j) @ nl) [i..<Suc (numPages pdf)])))"
  using assms
proof (induction "Suc (numPages pdf) - i" arbitrary: i acc)
  case 0
  then have "\<not> i \<le> numPages pdf" by simp
  then show ?case
    by (subst extractPages.simps) (simp add: ret_def)
next
  case (Suc k)
  then have le: "i \<le> numPages pdf" by simp
  from Suc.prems le have page: "getPage pdf i = Inr \<lparr>getTextContent = Inr (items i)\<rparr>"
    by simp
  have k: "k = Suc (numPages pdf) - Suc i" using Suc.hyps(2) by simp
  have rest: "\<forall>j. Suc i \<le> j \<and> j \<le> numPages pdf \<longrightarrow> getPage pdf j = Inr \<lparr>getTextContent = Inr (items j)\<rparr>"
    using Suc.prems by simp
  have upt: "[i..<Suc (numPages pdf)] = i # [Suc i..<Suc (numPages pdf)]"
    using le by (simp add: upt_conv_Cons)
  show ?case
    by (subst extractPages.simps)
       (simp add: le page upt Suc.hyps(1) [OF k rest] bind_io_def perform_def Let_def del: upt_Suc)
qed

lemma extractPages_error_foreign: "snd (extractPages pdf i acc) \<noteq> Inl EmptyContent"
proof (induction "Suc (numPages pdf) - i" arbitrary: i acc)
  case 0
  then have "\<not> i \<le> numPages pdf" by simp
  then show ?case
    by (subst extractPages.simps) (simp add: ret_def)
next
  case (Suc k)
  then have le: "i \<le> numPages pdf" by simp
  have k: "k = Suc (numPages pdf) - Suc i" using Suc.hyps(2) by simp
  show ?case
    using Suc.hyps(1) [OF k]
    by (subst extractPages.simps)
       (simp add: le snd_bind_io perform_def Let_def split: sum.splits)
qed

lemma extractText_error_foreign: "snd (extractText w f buf) \<noteq> Inl EmptyContent"
  using extractPages_error_foreign
  by (simp add: extractText_def extractTextFromPdf_def extractTextFromDocx_def
      snd_bind_io perform_def split: sum.splits)

lemma processFileContent_error_foreign: "snd (processFileContent w n c) \<noteq> Inl EmptyContent"
  by (simp add: processFileContent_def snd_bind_io perform_def ret_def Let_def
      split: sum.splits)

lemma storeDocument_error_foreign: "snd (storeDocument w i n c) \<noteq> Inl EmptyContent"
  by (simp add: storeDocument_def snd_bind_io perform_def ret_def throw_def Let_def
      split: sum.splits option.splits)

lemma fst_processUpload: "\<exists>rest. fst (processUpload w f uid) = File_arrayBuffer # rest"
  by (simp add: processUpload_def bind_io_def perform_def split: sum.splits prod.splits)

section \<open>C1: one chat exchange\<close>

text \<open>
  C1. A submitted question whose trimmed text is non-empty, with no answer in flight,
  appends exactly two messages to the conversation log: first the user message holding
  the question, then one assistant message, whose content is the generated answer when
  the context fetch and the generator both succeed and the string \<open>Error: \<close> followed by
  the failure detail (or the generic sentence) otherwise. From the moment the user
  message is appended every state of the run keeps it, and the \<open>isAnswering\<close> flag is
  false at the end, on both paths.
\<close>

theorem handleSendMessage_two_entries:
  assumes "trim (inputMessage s) \<noteq> []" and "\<not> isAnswering s"
  shows "\<exists>u a.
     chatMessages (run (handleSendMessage w s) s) = chatMessages s @ [u, a]
   \<and> m_role u = User \<and> m_content u = inputMessage s
   \<and> m_role a = Assistant
   \<and> m_content a =
       (case snd (askKnowledgeBase w (inputMessage s)) of
          Inr (text, sources) \<Rightarrow> text
        | Inl err \<Rightarrow> str ''Error: '' @ js_or (message err)
            (str ''Could not retrieve knowledge. Ensure your Supabase table 'documents' is created.''))
   \<and> (\<forall>st \<in> set (drop 2 (states (handleSendMessage w s) s)).
         prefix (chatMessages s @ [u]) (chatMessages st))
   \<and> \<not> isAnswering (run (handleSendMessage w s) s)"
proof (cases "askKnowledgeBase w (inputMessage s)")
  case (Pair calls r)
  show ?thesis
  proof (cases r)
    case (Inl err)
    with Pair assms show ?thesis
      by (simp add: handleSendMessage_def Let_def run_append run_calls states_calls)
  next
    case (Inr p)
    with Pair assms show ?thesis
      by (cases p) (simp add: handleSendMessage_def Let_def run_append run_calls states_calls)
  qed
qed

text \<open>
  The question \<open>hello\<close> against a backend that answers.
\<close>

theorem handleSendMessage_two_entries_witness:
  "trim (inputMessage s_configured) \<noteq> [] \<and> \<not> isAnswering s_configured
   \<and> (\<exists>u a. chatMessages (run (handleSendMessage w_online s_configured) s_configured) = [u, a]
          \<and> m_role u = User \<and> m_content u = str ''hello'' \<and> m_role a = Assistant)
   \<and> \<not> isAnswering (run (handleSendMessage w_online s_configured) s_configured)"
proof -
  have h1: "trim (inputMessage s_configured) \<noteq> []"
    by (simp add: s_configured_def hello_not_blank)
  have h2: "\<not> isAnswering s_configured"
    by (simp add: s_configured_def)
  have "chatMessages s_configured = []" "inputMessage s_configured = str ''hello''"
    by (simp_all add: s_configured_def)
  with handleSendMessage_two_entries [OF h1 h2, of w_online] h1 h2 show ?thesis
    by auto
qed

section \<open>C2: the terminal status of an upload\<close>

text \<open>
  C2. For a started upload (a file is present and the configured flag is true), the
  document inserted for it ends with status \<open>ready\<close> when the pipeline succeeded and
  \<open>error\<close> when it failed, never \<open>processing\<close>; and over the states of the run from
  the insertion on, its status changes exactly once, from \<open>processing\<close> to that value.
\<close>

theorem upload_status_terminal:
  assumes "isConfigured s"
  shows "let uid = random_id w;
             tr = onFileUpload w (Some f) s;
             final = (case snd (processUpload w f uid) of Inr _ \<Rightarrow> Ready | Inl _ \<Rightarrow> Error)
         in map_option d_status (find (\<lambda>d. d_id d = uid) (documents (run tr s))) = Some final
          \<and> final \<noteq> Processing
          \<and> remdups_adj (map (\<lambda>st. map_option d_status (find (\<lambda>d. d_id d = uid) (documents st)))
                             (drop 3 (states tr s)))
              = [Some Processing, Some final]"
proof (cases "processUpload w f (random_id w)")
  case (Pair calls r)
  show ?thesis
  proof (cases r)
    case (Inl err)
    with Pair assms show ?thesis
      by (simp add: onFileUpload_def catchUpload_def Let_def run_append run_calls states_calls
          patchError_def remdups_adj_replicate_Cons)
  next
    case (Inr c)
    with Pair assms show ?thesis
      by (simp add: onFileUpload_def Let_def run_append run_calls states_calls
          patchReady_def remdups_adj_replicate_Cons)
  qed
qed

text \<open>
  A text file against a backend that stores it: the status ends as \<open>ready\<close>.
\<close>

theorem upload_status_terminal_witness:
  "isConfigured s_configured
   \<and> map_option d_status (find (\<lambda>d. d_id d = random_id w_online)
        (documents (run (onFileUpload w_online (Some f_notes) s_configured) s_configured)))
       = Some Ready"
proof -
  have h: "isConfigured s_configured"
    by (simp add: s_configured_def)
  from upload_status_terminal [OF h, of w_online f_notes] h show ?thesis
    by (simp add: Let_def processUpload_notes_online)
qed

section \<open>C3: the configured flag\<close>




section \<open>C4: the pending document is inserted first\<close>

lemma collide_id: "random_id w_collide = d_id doc_old"
  by (simp add: w_collide_def w_online_def doc_old_def)

text \<open>
  C4, as stated, fails on the freshness of the identifier: the identifier is drawn from
  \<open>Math.random\<close> and never compared with the registry. When the random source returns
  the identifier of a document the registry already holds, the inserted document carries
  that same identifier.
\<close>

theorem colliding_id_counterexample:
  "isConfigured s_configured \<and> documents s_configured = [doc_old]
   \<and> random_id w_collide = d_id doc_old
   \<and> documents (run (take 3 (onFileUpload w_collide (Some f_notes) s_configured)) s_configured)
       = [\<lparr>d_id = d_id doc_old, d_name = str ''notes.txt'', d_content = [],
            d_status = Processing, d_timestamp = 1700000000000\<rparr>, doc_old]"
proof -
  have "clock w_collide 0 = 1700000000000" "f_name f_notes = str ''notes.txt''"
    by (simp_all add: w_collide_def w_online_def f_notes_def)
  then show ?thesis
    using collide_id
    by (cases "processUpload w_collide f_notes (random_id w_collide)")
       (simp add: onFileUpload_def Let_def s_configured_def split: sum.splits)
qed

text \<open>
  C4, amended. For an accepted upload (a file is present and the configured flag is true)
  the first three things the handler does are state updates, the third inserting at the
  head of the registry a document with status \<open>processing\<close>, empty content, the file's
  name and the identifier drawn from \<open>Math.random\<close> for this upload, which is not
  checked against the identifiers already in the registry; the first step that leaves the
  component, the file read, comes only after them.
\<close>

theorem upload_inserts_first:
  assumes "isConfigured s"
  shows "let newDoc = \<lparr>d_id = random_id w, d_name = f_name f, d_content = [],
                        d_status = Processing, d_timestamp = clock w 0\<rparr>;
             tr = onFileUpload w (Some f) s
         in take 3 tr = [SetIsUploading True, SetErrorStatus None, InsertDocument newDoc]
          \<and> documents (run (take 3 tr) s) = newDoc # documents s
          \<and> tr ! 3 = Call File_arrayBuffer"
proof -
  obtain rest where "fst (processUpload w f (random_id w)) = File_arrayBuffer # rest"
    using fst_processUpload by blast
  with assms show ?thesis
    by (cases "processUpload w f (random_id w)")
       (simp add: onFileUpload_def Let_def split: sum.splits)
qed

text \<open>
  The upload of \<open>notes.txt\<close>.
\<close>

theorem upload_inserts_first_witness:
  "isConfigured s_configured
   \<and> take 3 (onFileUpload w_online (Some f_notes) s_configured)
       = [SetIsUploading True, SetErrorStatus None,
          InsertDocument \<lparr>d_id = str ''k3x9q2m1z'', d_name = str ''notes.txt'', d_content = [],
                          d_status = Processing, d_timestamp = 1700000000000\<rparr>]
   \<and> onFileUpload w_online (Some f_notes) s_configured ! 3 = Call File_arrayBuffer"
proof -
  have h: "isConfigured s_configured"
    by (simp add: s_configured_def)
  from upload_inserts_first [OF h, of w_online f_notes] h show ?thesis
    by (simp add: Let_def w_online_def f_notes_def)
qed

section \<open>C5: the error shown after a failed upload\<close>

text \<open>
  C5, as stated, fails for an error whose message is empty: the message matches no
  missing-table signal, and the error state holds \<open>Failed to upload.\<close>, not the raw
  (empty) message.
\<close>

theorem empty_message_counterexample:
  "snd (processUpload w_online f_unreadable (random_id w_online)) = Inl (External (Some []))
   \<and> \<not> includes_str [] (str ''PGRST205'') \<and> \<not> includes_str [] (str ''documents'')
   \<and> errorStatus (run (onFileUpload w_online (Some f_unreadable) s_configured) s_configured)
       = Some (str ''Failed to upload.'')
   \<and> str ''Failed to upload.'' \<noteq> []"
proof -
  have "processUpload w_online f_unreadable (random_id w_online)
          = ([File_arrayBuffer], Inl (External (Some [])))"
    by (simp add: processUpload_def bind_io_def perform_def f_unreadable_def)
  then show ?thesis
    using includes_examples(2,3)
    by (simp add: onFileUpload_def catchUpload_def Let_def js_or_def s_configured_def
        includes_str_def str_eq_Nil)
qed

text \<open>
  C5, amended. Let \<open>msg\<close> be the error's message, or \<open>Failed to upload.\<close> when the
  error has no message or an empty one. When an upload fails, the error state is set to
  the schema-setup sentence if \<open>msg\<close> contains \<open>PGRST205\<close> or \<open>documents\<close>, and to
  \<open>msg\<close> otherwise; so a non-empty message without the signal is shown as it is, and a
  missing or empty message is shown as \<open>Failed to upload.\<close>.
\<close>

theorem upload_error_status:
  assumes "isConfigured s" and "snd (processUpload w f (random_id w)) = Inl err"
  shows "let shown = errorStatus (run (onFileUpload w (Some f) s) s);
             msg = js_or (message err) (str ''Failed to upload.'')
         in (includes_str msg (str ''PGRST205'') \<or> includes_str msg (str ''documents'') \<longrightarrow>
               shown = Some (str ''Table 'documents' missing in Supabase. Check Setup SQL.''))
          \<and> (\<not> includes_str msg (str ''PGRST205'') \<and> \<not> includes_str msg (str ''documents'') \<longrightarrow>
               shown = Some msg)
          \<and> (\<forall>m. message err = Some m \<and> m \<noteq> [] \<longrightarrow> msg = m)
          \<and> (message err = None \<or> message err = Some [] \<longrightarrow>
               shown = Some (str ''Failed to upload.''))"
proof (cases "processUpload w f (random_id w)")
  case (Pair calls r)
  with assms have r: "r = Inl err" by simp
  have shown: "errorStatus (run (onFileUpload w (Some f) s) s) =
      Some (let msg = js_or (message err) (str ''Failed to upload.'')
            in if includes_str msg (str ''PGRST205'') \<or> includes_str msg (str ''documents'')
               then str ''Table 'documents' missing in Supabase. Check Setup SQL.'' else msg)"
    using Pair r assms(1)
    by (simp add: onFileUpload_def catchUpload_def Let_def run_append run_calls)
  show ?thesis
    using includes_examples(2,3)
    by (auto simp add: shown Let_def js_or_def)
qed

text \<open>
  A store write against a backend without the table.
\<close>

theorem upload_error_status_witness:
  "isConfigured s_configured
   \<and> snd (processUpload w_missing_table f_notes (random_id w_missing_table))
       = Inl (External (Some missing_table_message))
   \<and> errorStatus (run (onFileUpload w_missing_table (Some f_notes) s_configured) s_configured)
       = Some (str ''Table 'documents' missing in Supabase. Check Setup SQL.'')"
proof -
  have h: "isConfigured s_configured"
    by (simp add: s_configured_def)
  have nonempty: "missing_table_message \<noteq> []"
    by (simp add: missing_table_message_def str_eq_Nil)
  from upload_error_status [OF h processUpload_notes_missing_table] h nonempty
    includes_examples(1) processUpload_notes_missing_table
  show ?thesis
    by (simp add: Let_def js_or_def)
qed

section \<open>C6: PDF pages in ascending order\<close>

text \<open>
  C6. For a PDF that opens and whose pages 1 to \<open>numPages\<close> all load, the PDF strategy
  fetches the pages in the order 1, 2, ..., \<open>numPages\<close>, joins the fragments of each
  page with a single space and appends a newline after each page, in page order.
\<close>

theorem extractTextFromPdf_page_order:
  assumes "pdfjs_getDocument w buf = Inr pdf"
    and "\<forall>j. 1 \<le> j \<and> j \<le> numPages pdf \<longrightarrow> getPage pdf j = Inr \<lparr>getTextContent = Inr (items j)\<rparr>"
  shows "extractTextFromPdf w buf =
           (Pdfjs_getDocument #
              concat (map (\<lambda>j. [Pdf_getPage j, Page_getTextContent j]) [1..<Suc (numPages pdf)]),
            Inr (concat (map (\<lambda>j. join (str '' '') (items j) @ nl) [1..<Suc (numPages pdf)])))"
proof -
  have "extractPages pdf 1 [] =
          (concat (map (\<lambda>j. [Pdf_getPage j, Page_getTextContent j]) [1..<Suc (numPages pdf)]),
           Inr ([] @ concat (map (\<lambda>j. join (str '' '') (items j) @ nl) [1..<Suc (numPages pdf)])))"
    using assms(2) by (rule extractPages_all)
  with assms(1) show ?thesis
    by (simp add: extractTextFromPdf_def bind_io_def perform_def del: upt_Suc)
qed

text \<open>
  The three-page PDF with pages A, B and C extracts to \<open>A\nB\nC\n\<close>.
\<close>

theorem extractTextFromPdf_page_order_witness:
  "extractTextFromPdf w_online [] =
     ([Pdfjs_getDocument, Pdf_getPage 1, Page_getTextContent 1, Pdf_getPage 2,
       Page_getTextContent 2, Pdf_getPage 3, Page_getTextContent 3],
      Inr (str ''A'' @ nl @ str ''B'' @ nl @ str ''C'' @ nl))"
proof -
  have h1: "pdfjs_getDocument w_online [] = Inr pdf_ABC"
    by (simp add: w_online_def)
  have h2: "\<forall>j. 1 \<le> j \<and> j \<le> numPages pdf_ABC \<longrightarrow>
              getPage pdf_ABC j = Inr \<lparr>getTextContent = Inr (items_ABC j)\<rparr>"
    by (simp add: pdf_ABC_def)
  have n: "[1..<Suc (numPages pdf_ABC)] = [1, 2, 3]"
    by (simp add: pdf_ABC_def upt_rec)
  show ?thesis
    using extractTextFromPdf_page_order [OF h1 h2] unfolding n
    by (simp add: items_ABC_def)
qed

section \<open>C7: empty content\<close>

lemma processUpload_EmptyContent:
  "snd (processUpload w f uid) = Inl EmptyContent
   \<longleftrightarrow> (\<exists>buf t. arrayBuffer f = Inr buf \<and> snd (extractText w f buf) = Inr t
         \<and> (\<forall>c \<in> set t. isWhiteSpace c))"
proof (cases "arrayBuffer f")
  case (Inl m)
  then show ?thesis
    by (simp add: processUpload_def snd_bind_io perform_def)
next
  case (Inr buf)
  note buf = this
  show ?thesis
  proof (cases "snd (extractText w f buf)")
    case (Inl e)
    with buf extractText_error_foreign [of w f buf] show ?thesis
      by (simp add: processUpload_def snd_bind_io perform_def)
  next
    case (Inr t)
    note t = this
    show ?thesis
    proof (cases "trim t = []")
      case True
      with buf t show ?thesis
        by (simp add: processUpload_def snd_bind_io perform_def throw_def trim_empty_iff)
    next
      case False
      with buf t processFileContent_error_foreign [of w "f_name f" t]
        storeDocument_error_foreign [of w uid "f_name f"]
      show ?thesis
        by (auto simp add: processUpload_def snd_bind_io perform_def ret_def trim_empty_iff
            split: sum.splits)
    qed
  qed
qed

lemma scan_extract:
  "snd (extractText w_scan f_scan [0x25, 0x50, 0x44, 0x46]) = Inr nl"
proof -
  have pages: "\<forall>j. 1 \<le> j \<and> j \<le> numPages pdf_scanned \<longrightarrow>
      getPage pdf_scanned j = Inr \<lparr>getTextContent = Inr ((\<lambda>_. []) j)\<rparr>"
    by (simp add: pdf_scanned_def)
  have "extractPages pdf_scanned 1 [] =
      (concat (map (\<lambda>j. [Pdf_getPage j, Page_getTextContent j]) [1..<Suc (numPages pdf_scanned)]),
       Inr ([] @ concat (map (\<lambda>j. join (str '' '') ((\<lambda>_. []) j) @ nl)
                          [1..<Suc (numPages pdf_scanned)])))"
    using pages by (rule extractPages_all)
  moreover have "[1..<Suc (numPages pdf_scanned)] = [1]"
    by (simp add: pdf_scanned_def)
  ultimately have "snd (extractPages pdf_scanned 1 []) = Inr nl"
    by simp
  then show ?thesis
    by (simp add: extractText_def extractTextFromPdf_def snd_bind_io perform_def
        w_scan_def w_online_def f_scan_def)
qed

lemma nl_blank: "trim nl = []"
  by (simp add: trim_def nl_def isWhiteSpace_def)

lemma notes_extract: "snd (extractText w_online f_notes [0x68, 0x69]) = Inr [0x68, 0x69]"
  using notes_dispatch
  by (simp add: extractText_def perform_def w_online_def ascii_decode_def)

text \<open>
  C7, as stated, fails for a scanned PDF: the file is not empty and is well-formed, its
  one page is an image without text fragments, the PDF strategy yields a single newline,
  and the upload fails with \<open>EmptyContent\<close>.
\<close>

theorem scanned_pdf_counterexample:
  "arrayBuffer f_scan = Inr [0x25, 0x50, 0x44, 0x46]
   \<and> f_type f_scan = str ''application/pdf''
   \<and> snd (extractText w_scan f_scan [0x25, 0x50, 0x44, 0x46]) = Inr nl
   \<and> snd (processUpload w_scan f_scan (random_id w_scan)) = Inl EmptyContent"
proof -
  have buf: "arrayBuffer f_scan = Inr [0x25, 0x50, 0x44, 0x46]"
    and ty: "f_type f_scan = str ''application/pdf''"
    by (simp_all add: f_scan_def)
  from buf scan_extract nl_blank
  have "snd (processUpload w_scan f_scan (random_id w_scan)) = Inl EmptyContent"
    by (simp add: processUpload_def snd_bind_io perform_def throw_def)
  with buf ty scan_extract show ?thesis by simp
qed

text \<open>
  C7, amended. The upload fails with \<open>EmptyContent\<close> exactly when the file was read,
  the selected strategy produced a text, and every code unit of that text is whitespace
  (the empty text included). For an input whose extracted text has a character that is
  not whitespace, extraction yields non-empty text and the upload does not fail with
  \<open>EmptyContent\<close>. A non-empty well-formed input of a supported type whose extraction
  holds no such character, as a PDF without a text layer, does fail with it.
\<close>

theorem upload_EmptyContent_iff:
  "(snd (processUpload w f uid) = Inl EmptyContent
    \<longleftrightarrow> (\<exists>buf t. arrayBuffer f = Inr buf \<and> snd (extractText w f buf) = Inr t
          \<and> (\<forall>c \<in> set t. isWhiteSpace c)))
   \<and> (\<forall>buf t. arrayBuffer f = Inr buf \<and> snd (extractText w f buf) = Inr t
          \<and> (\<exists>c \<in> set t. \<not> isWhiteSpace c)
        \<longrightarrow> t \<noteq> [] \<and> trim t \<noteq> [] \<and> snd (processUpload w f uid) \<noteq> Inl EmptyContent)"
proof (intro conjI allI impI)
  show "snd (processUpload w f uid) = Inl EmptyContent
    \<longleftrightarrow> (\<exists>buf t. arrayBuffer f = Inr buf \<and> snd (extractText w f buf) = Inr t
          \<and> (\<forall>c \<in> set t. isWhiteSpace c))"
    by (rule processUpload_EmptyContent)
next
  fix buf t
  assume a: "arrayBuffer f = Inr buf \<and> snd (extractText w f buf) = Inr t
          \<and> (\<exists>c \<in> set t. \<not> isWhiteSpace c)"
  then show "t \<noteq> []" by auto
  from a show "trim t \<noteq> []" by (simp add: trim_empty_iff)
  from a show "snd (processUpload w f uid) \<noteq> Inl EmptyContent"
    by (auto simp add: processUpload_EmptyContent)
qed

text \<open>
  A Markdown file holding a tab and a line feed, and a text file holding \<open>hi\<close>.
\<close>

theorem upload_EmptyContent_iff_witness:
  "snd (processUpload w_online f_tabs (random_id w_online)) = Inl EmptyContent
   \<and> snd (extractText w_online f_notes [0x68, 0x69]) = Inr [0x68, 0x69]
   \<and> snd (processUpload w_online f_notes (random_id w_online)) \<noteq> Inl EmptyContent"
proof -
  have buf: "arrayBuffer f_tabs = Inr [0x09, 0x0A]"
    by (simp add: f_tabs_def)
  have extracted: "snd (extractText w_online f_tabs [0x09, 0x0A]) = Inr [0x09, 0x0A]"
    using tabs_dispatch
    by (simp add: extractText_def perform_def w_online_def ascii_decode_def)
  have blank: "\<forall>c \<in> set [0x09, 0x0A :: jschar]. isWhiteSpace c"
    by (simp add: isWhiteSpace_def)
  have nbuf: "arrayBuffer f_notes = Inr [0x68, 0x69]"
    by (simp add: f_notes_def)
  have visible: "\<exists>c \<in> set [0x68, 0x69 :: jschar]. \<not> isWhiteSpace c"
    by (simp add: isWhiteSpace_def)
  from upload_EmptyContent_iff [of w_online f_tabs "random_id w_online"] buf extracted blank
  have "snd (processUpload w_online f_tabs (random_id w_online)) = Inl EmptyContent"
    by blast
  moreover
  from upload_EmptyContent_iff [of w_online f_notes "random_id w_online"] nbuf notes_extract visible
  have "snd (processUpload w_online f_notes (random_id w_online)) \<noteq> Inl EmptyContent"
    by blast
  ultimately show ?thesis
    using notes_extract by simp
qed

section \<open>C8: the identifiers of one exchange\<close>

text \<open>
  C8. The claim is that the user message and the assistant message of one exchange have
  distinct identifiers. The success path adds one to the clock reading; the error path
  does not. When the context fetch fails within the millisecond of the submission, the
  user message and the synthesized error message carry the same identifier.
\<close>

theorem error_reply_reuses_user_id:
  "isConfigured s_configured
   \<and> map m_role (chatMessages (run (handleSendMessage w_fetch_fails s_configured) s_configured))
       = [User, Assistant]
   \<and> map m_id (chatMessages (run (handleSendMessage w_fetch_fails s_configured) s_configured))
       = [toString 1700000000000, toString 1700000000000]
   \<and> map m_content (chatMessages (run (handleSendMessage w_fetch_fails s_configured) s_configured))
       = [str ''hello'', str ''Error: '' @ str ''TypeError: Failed to fetch'']"
  using hello_not_blank
  by (simp add: handleSendMessage_def askKnowledgeBase_def searchKnowledgeBase_def
      bind_io_def perform_def throw_def Let_def js_or_def str_eq_Nil
      s_configured_def w_fetch_fails_def w_online_def db_unreachable_def)

text \<open>
  The success path, for comparison: with a clock that is not negative and does not run
  backwards between the two readings, the two identifiers differ.
\<close>

lemma success_reply_id_distinct:
  assumes "trim (inputMessage s) \<noteq> []" and "\<not> isAnswering s"
    and "snd (askKnowledgeBase w (inputMessage s)) = Inr answer"
    and "0 \<le> clock w 0" and "clock w 0 \<le> clock w 1"
  shows "\<exists>u a. chatMessages (run (handleSendMessage w s) s) = chatMessages s @ [u, a]
           \<and> m_id u = toString (clock w 0) \<and> m_id a = toString (clock w 1 + 1)
           \<and> m_id u \<noteq> m_id a"
proof -
  have "toString (clock w 0) \<noteq> toString (clock w 1 + 1)"
    using assms(4,5) toString_inj_nonneg [of "clock w 0" "clock w 1 + 1"] by auto
  with assms(1-3) show ?thesis
    by (cases "askKnowledgeBase w (inputMessage s)"; cases answer)
       (simp add: handleSendMessage_def Let_def run_append run_calls)
qed

section \<open>C9: the registry patch is keyed by identifier\<close>

lemma registry_ids:
  "d_id doc_other \<noteq> str ''k3x9q2m1z''"
  "d_id doc_pending = str ''k3x9q2m1z''"
  "d_id doc_old \<noteq> str ''k3x9q2m1z''"
  by code_simp+

text \<open>
  C9. For any registry the patches meet, the success patch and the failure patch keep
  its length and leave every entry with another identifier unchanged at its place; the
  failure patch changes only the status field of an entry with the upload's identifier
  (content, identifier, name and timestamp stay), the success patch its content and
  status. The two \<open>setDocuments\<close> updaters apply exactly these patches to whatever
  registry is current. In a run of the handler the registry ends as the patch for the
  upload's own identifier applied to the old registry with the new document in front,
  and on failure the new entry is the inserted document with status \<open>error\<close> and its
  content still the empty string.
\<close>

theorem patch_keyed_by_id:
  "length (patchError uid prev) = length prev
   \<and> length (patchReady uid c prev) = length prev
   \<and> (\<forall>i < length prev.
        (d_id (prev ! i) \<noteq> uid \<longrightarrow>
           patchError uid prev ! i = prev ! i \<and> patchReady uid c prev ! i = prev ! i)
      \<and> (d_id (prev ! i) = uid \<longrightarrow>
           patchError uid prev ! i = (prev ! i)\<lparr>d_status := Error\<rparr>
         \<and> patchReady uid c prev ! i = (prev ! i)\<lparr>d_content := c, d_status := Ready\<rparr>))
   \<and> (\<forall>st. documents (apply_event (PatchError uid) st) = patchError uid (documents st)
           \<and> documents (apply_event (PatchReady uid c) st) = patchReady uid c (documents st))
   \<and> (isConfigured s \<longrightarrow>
        (let newDoc = \<lparr>d_id = random_id w, d_name = f_name f, d_content = [],
                       d_status = Processing, d_timestamp = clock w 0\<rparr>;
             after = documents (run (onFileUpload w (Some f) s) s)
         in after = (case snd (processUpload w f (random_id w)) of
                       Inr processedContent \<Rightarrow>
                         patchReady (random_id w) processedContent (newDoc # documents s)
                     | Inl err \<Rightarrow> patchError (random_id w) (newDoc # documents s))
          \<and> (\<forall>err. snd (processUpload w f (random_id w)) = Inl err \<longrightarrow>
                after ! 0 = \<lparr>d_id = random_id w, d_name = f_name f, d_content = [],
                             d_status = Error, d_timestamp = clock w 0\<rparr>)))"
proof (intro conjI)
  show "length (patchError uid prev) = length prev"
    by (simp add: patchError_def)
  show "length (patchReady uid c prev) = length prev"
    by (simp add: patchReady_def)
  show "\<forall>i < length prev.
        (d_id (prev ! i) \<noteq> uid \<longrightarrow>
           patchError uid prev ! i = prev ! i \<and> patchReady uid c prev ! i = prev ! i)
      \<and> (d_id (prev ! i) = uid \<longrightarrow>
           patchError uid prev ! i = (prev ! i)\<lparr>d_status := Error\<rparr>
         \<and> patchReady uid c prev ! i = (prev ! i)\<lparr>d_content := c, d_status := Ready\<rparr>)"
    by (simp add: patchError_def patchReady_def)
  show "\<forall>st. documents (apply_event (PatchError uid) st) = patchError uid (documents st)
           \<and> documents (apply_event (PatchReady uid c) st) = patchReady uid c (documents st)"
    by simp
  show "isConfigured s \<longrightarrow>
        (let newDoc = \<lparr>d_id = random_id w, d_name = f_name f, d_content = [],
                       d_status = Processing, d_timestamp = clock w 0\<rparr>;
             after = documents (run (onFileUpload w (Some f) s) s)
         in after = (case snd (processUpload w f (random_id w)) of
                       Inr processedContent \<Rightarrow>
                         patchReady (random_id w) processedContent (newDoc # documents s)
                     | Inl err \<Rightarrow> patchError (random_id w) (newDoc # documents s))
          \<and> (\<forall>err. snd (processUpload w f (random_id w)) = Inl err \<longrightarrow>
                after ! 0 = \<lparr>d_id = random_id w, d_name = f_name f, d_content = [],
                             d_status = Error, d_timestamp = clock w 0\<rparr>))"
  proof (cases "processUpload w f (random_id w)")
    case (Pair calls r)
    then show ?thesis
      by (cases r)
         (simp_all add: onFileUpload_def catchUpload_def Let_def run_append run_calls
           patchError_def)
  qed
qed

text \<open>
  A registry of three documents with the upload's entry in the middle, and a failed
  upload into a registry that holds one older document.
\<close>

theorem patch_keyed_by_id_witness:
  "patchError (str ''k3x9q2m1z'') registry_three ! 0 = doc_other
   \<and> patchError (str ''k3x9q2m1z'') registry_three ! 1 = doc_pending\<lparr>d_status := Error\<rparr>
   \<and> patchError (str ''k3x9q2m1z'') registry_three ! 2 = doc_old
   \<and> patchReady (str ''k3x9q2m1z'') (str ''clean text'') registry_three ! 0 = doc_other
   \<and> patchReady (str ''k3x9q2m1z'') (str ''clean text'') registry_three ! 1
       = doc_pending\<lparr>d_content := str ''clean text'', d_status := Ready\<rparr>
   \<and> patchReady (str ''k3x9q2m1z'') (str ''clean text'') registry_three ! 2 = doc_old
   \<and> isConfigured s_configured
   \<and> documents (run (onFileUpload w_online (Some f_unreadable) s_configured) s_configured)
       = [\<lparr>d_id = random_id w_online, d_name = str ''notes.txt'', d_content = [],
            d_status = Error, d_timestamp = clock w_online 0\<rparr>, doc_old]"
proof -
  note inst = patch_keyed_by_id [of "str ''k3x9q2m1z''" registry_three "str ''clean text''"
      s_configured w_online f_unreadable]
  have len: "length registry_three = 3"
    and nth: "registry_three ! 0 = doc_other" "registry_three ! Suc 0 = doc_pending"
      "registry_three ! 2 = doc_old"
    by (simp_all add: registry_three_def)
  have h: "isConfigured s_configured"
    by (simp add: s_configured_def)
  have docs: "documents s_configured = [doc_old]"
    by (simp add: s_configured_def)
  have name: "f_name f_unreadable = str ''notes.txt''"
    by (simp add: f_unreadable_def)
  from inst have idx: "\<forall>i < length registry_three.
        (d_id (registry_three ! i) \<noteq> str ''k3x9q2m1z'' \<longrightarrow>
           patchError (str ''k3x9q2m1z'') registry_three ! i = registry_three ! i
         \<and> patchReady (str ''k3x9q2m1z'') (str ''clean text'') registry_three ! i
             = registry_three ! i)
      \<and> (d_id (registry_three ! i) = str ''k3x9q2m1z'' \<longrightarrow>
           patchError (str ''k3x9q2m1z'') registry_three ! i
             = (registry_three ! i)\<lparr>d_status := Error\<rparr>
         \<and> patchReady (str ''k3x9q2m1z'') (str ''clean text'') registry_three ! i
             = (registry_three ! i)\<lparr>d_content := str ''clean text'', d_status := Ready\<rparr>)"
    by blast
  from idx [rule_format, of 0] idx [rule_format, of 1] idx [rule_format, of 2]
  have patches:
    "patchError (str ''k3x9q2m1z'') registry_three ! 0 = doc_other"
    "patchError (str ''k3x9q2m1z'') registry_three ! 1 = doc_pending\<lparr>d_status := Error\<rparr>"
    "patchError (str ''k3x9q2m1z'') registry_three ! 2 = doc_old"
    "patchReady (str ''k3x9q2m1z'') (str ''clean text'') registry_three ! 0 = doc_other"
    "patchReady (str ''k3x9q2m1z'') (str ''clean text'') registry_three ! 1
       = doc_pending\<lparr>d_content := str ''clean text'', d_status := Ready\<rparr>"
    "patchReady (str ''k3x9q2m1z'') (str ''clean text'') registry_three ! 2 = doc_old"
    using registry_ids by (simp_all add: len nth)
  from inst h have "documents (run (onFileUpload w_online (Some f_unreadable) s_configured) s_configured)
      = patchError (random_id w_online)
          (\<lparr>d_id = random_id w_online, d_name = str ''notes.txt'', d_content = [],
             d_status = Processing, d_timestamp = clock w_online 0\<rparr> # [doc_old])"
    by (simp add: Let_def processUpload_unreadable docs name)
  with ids_differ have "documents (run (onFileUpload w_online (Some f_unreadable) s_configured) s_configured)
       = [\<lparr>d_id = random_id w_online, d_name = str ''notes.txt'', d_content = [],
            d_status = Error, d_timestamp = clock w_online 0\<rparr>, doc_old]"
    by (simp add: patchError_def)
  with patches h show ?thesis by simp
qed

section \<open>C10: the context fetch ignores the question\<close>

text \<open>
  C10. For any two query strings and the same world (the same client and the same
  stored rows behind it), \<open>searchKnowledgeBase\<close> settles with the same result, error or
  context string, and sends the same request to the backend: the query is not part of it.
\<close>

theorem searchKnowledgeBase_query_independent:
  "snd (searchKnowledgeBase w q1) = snd (searchKnowledgeBase w q2)
   \<and> tl (fst (searchKnowledgeBase w q1)) = tl (fst (searchKnowledgeBase w q2))"
  by (simp add: searchKnowledgeBase_def bind_io_def perform_def throw_def ret_def
      split: option.splits sum.splits prod.splits)

end
